theory Spec2Isabelle
  imports Complex_Main "HOL-Library.Word" "HOL-Library.Log_Nat"
begin

section \<open>Floating point\<close>

text \<open>
  A \<open>float64\<close> value: a finite number, kept as the rational it denotes, an infinity or
  a NaN. The two zeros are one value. The finite values that a computation produces are
  results of \<open>f64_round\<close>, that is, binary64 numbers.
\<close>

datatype float64 = Finite rat | PosInf | NegInf | NaN

text \<open>The power of two with an integer exponent.\<close>

definition pow2 :: "int \<Rightarrow> rat" where
  "pow2 k = (if 0 \<le> k then of_int (2 ^ nat k) else 1 / of_int (2 ^ nat (- k)))"

text \<open>
  The binary exponent of a rational other than zero: the integer \<open>e\<close> with
  \<open>2 ^ e \<le> \<bar>r\<bar>\<close> and \<open>\<bar>r\<bar> < 2 ^ (e + 1)\<close>, from the bit length of the integer part, or
  of the reciprocal rounded up when \<open>\<bar>r\<bar> < 1\<close>.
\<close>

definition f64_exponent :: "rat \<Rightarrow> int" where
  "f64_exponent r =
     (if 1 \<le> \<bar>r\<bar> then bitlen \<lfloor>\<bar>r\<bar>\<rfloor> - 1 else - bitlen (\<lceil>1 / \<bar>r\<bar>\<rceil> - 1))"

text \<open>Rounding to the nearest integer, a tie to the even one.\<close>

definition round_half_even :: "rat \<Rightarrow> int" where
  "round_half_even x =
     (let n = \<lfloor>x\<rfloor>; f = x - of_int n
      in if f < 1 / 2 then n else if 1 / 2 < f then n + 1 else if even n then n else n + 1)"

text \<open>
  The binary64 result of an operation whose exact result is \<open>r\<close>, in the default
  rounding mode (to nearest, ties to even): \<open>r\<close> is rounded to a multiple of the
  quantum of its binade, which leaves 53 significant bits and is \<open>2 ^ - 1074\<close> for the
  subnormal numbers; a result that reaches \<open>2 ^ 1024\<close> in magnitude is an infinity.
\<close>

definition f64_round :: "rat \<Rightarrow> float64" where
  "f64_round r =
     (if r = 0 then Finite 0
      else
        (let q = pow2 (max (f64_exponent r) (- 1022) - 52);
             v = of_int (round_half_even (r / q)) * q
         in if pow2 1024 \<le> \<bar>v\<bar> then (if 0 < r then PosInf else NegInf) else Finite v))"

text \<open>The product \<open>x * y\<close> of two \<open>float64\<close> values.\<close>

fun f64_mul :: "float64 \<Rightarrow> float64 \<Rightarrow> float64" where
  "f64_mul (Finite a) (Finite b) = f64_round (a * b)"
| "f64_mul NaN y = NaN"
| "f64_mul x NaN = NaN"
| "f64_mul (Finite a) PosInf = (if a = 0 then NaN else if 0 < a then PosInf else NegInf)"
| "f64_mul (Finite a) NegInf = (if a = 0 then NaN else if 0 < a then NegInf else PosInf)"
| "f64_mul PosInf (Finite b) = (if b = 0 then NaN else if 0 < b then PosInf else NegInf)"
| "f64_mul NegInf (Finite b) = (if b = 0 then NaN else if 0 < b then NegInf else PosInf)"
| "f64_mul PosInf PosInf = PosInf"
| "f64_mul PosInf NegInf = NegInf"
| "f64_mul NegInf PosInf = NegInf"
| "f64_mul NegInf NegInf = PosInf"

text \<open>The sum \<open>x + y\<close> of two \<open>float64\<close> values.\<close>

fun f64_add :: "float64 \<Rightarrow> float64 \<Rightarrow> float64" where
  "f64_add (Finite a) (Finite b) = f64_round (a + b)"
| "f64_add NaN y = NaN"
| "f64_add x NaN = NaN"
| "f64_add PosInf NegInf = NaN"
| "f64_add NegInf PosInf = NaN"
| "f64_add PosInf y = PosInf"
| "f64_add NegInf y = NegInf"
| "f64_add x PosInf = PosInf"
| "f64_add x NegInf = NegInf"

text \<open>The quotient \<open>x / 2\<close> of a \<open>float64\<close> value.\<close>

fun f64_halve :: "float64 \<Rightarrow> float64" where
  "f64_halve (Finite a) = f64_round (a / 2)"
| "f64_halve x = x"

text \<open>The conversion \<open>float64(n)\<close> of an integer.\<close>

definition f64_of_int :: "int \<Rightarrow> float64" where
  "f64_of_int n = f64_round (of_int n)"


section \<open>Data model\<close>

text \<open>
  An error value. Each constructor other than \<open>Upstream\<close> is one \<open>fmt.Errorf\<close> site of
  the bus package and keeps the arguments formatted into the message; \<open>Upstream\<close> is an
  error produced by a collaborator (RPC client, JSON decoder, configuration loader).
\<close>

datatype error =
    Upstream string
  | ErrInvalidDescriptor error
  | ErrDeriveAddress string int error
  | ErrAddressInfo string error
  | ErrParseBlockChainInfo error

text \<open>
  The status enumeration of the bus package. \<open>StatusZero\<close> is the zero value that the
  \<open>Status\<close> field of a freshly built \<open>ExplorerStatus\<close> holds before any assignment.
\<close>

datatype Status = StatusZero | NodeDisconnected | PendingScan | Syncing | Scanning | Ready

text \<open>
  \<open>SyncProgress\<close> and \<open>ScanProgress\<close> are pointers: \<open>None\<close> is nil. A \<open>float64\<close> field
  that the code computes with has the type \<open>float64\<close>; one that it only copies or logs
  (the fees of the network info, the total amount of the transaction output set) is kept
  as the rational it denotes.
\<close>

record ExplorerStatus =
  Version :: string
  TxIndex :: bool
  Pruned :: bool
  Chain :: string
  Currency :: string
  Status :: Status
  SyncProgress :: "float64 option"
  ScanProgress :: "float64 option"

text \<open>The locally declared decode shape of \<open>getblockchaininfo\<close> in \<open>GetStatus\<close>.\<close>

record customBlockChainInfo =
  Blocks :: "32 word"
  Headers :: "32 word"
  VerificationProgress :: float64
  Warnings :: "string list"

text \<open>
  The dynamic value of \<open>walletInfo.Scanning.Value\<close>: a scan progress (progress fraction,
  duration in seconds), a boolean, or anything else.
\<close>

datatype ScanningValue = ScanProgressValue float64 int | ScanningBool bool | ScanningOther

record WalletInfo =
  ScanningState :: ScanningValue

text \<open>The locally declared decode shape of \<open>getnetworkinfo\<close> in \<open>GetNetwork\<close>.\<close>

record customNetworkInfo =
  info_RelayFee :: rat
  info_IncrementalFee :: rat
  info_Version :: "32 word"
  info_Subversion :: string
  info_Warnings :: "string list"

record Network =
  RelayFee :: rat
  IncrementalFee :: rat
  NodeVersion :: "32 word"
  Subversion :: string

record descriptor =
  Value :: string
  Depth :: int
  Age :: "32 word"

text \<open>
  A node client, given by what each of its calls answers. \<open>'j\<close> is the type of the raw
  JSON a passthrough request returns. \<open>GetCanonicalDescriptor\<close>, \<open>DeriveAddress\<close> and
  \<open>ImportDescriptors\<close> are the helpers of the bus package that take the client as their
  first argument; \<open>GetAddressInfo\<close> answers the \<open>IsWatchOnly\<close> flag of the address.
\<close>

record 'j Client =
  RawRequest :: "string \<Rightarrow> error + 'j"
  GetWalletInfo :: "error + WalletInfo"
  GetCanonicalDescriptor :: "string \<Rightarrow> error + string"
  DeriveAddress :: "string \<Rightarrow> int \<Rightarrow> error + string"
  GetAddressInfo :: "string \<Rightarrow> error + bool"
  ImportDescriptors :: "descriptor list \<Rightarrow> error option"

record 'j Bus =
  bus_TxIndex :: bool
  bus_Pruned :: bool
  bus_Chain :: string
  bus_Currency :: string
  IsPendingScan :: bool
  ClientFactory :: "error + 'j Client"

text \<open>
  What a function does to the outside, in order: the calls it makes on a node client and,
  for the worker, its writes to the shared flag and its signals.
\<close>

datatype event =
    CallClientFactory
  | CallShutdown
  | CallRawRequest string
  | CallGetWalletInfo
  | CallGetCanonicalDescriptor string
  | CallDeriveAddress string int
  | CallGetAddressInfo string
  | CallImportDescriptors "descriptor list"
  | CallGetTxOutSetInfo
  | CallLoadRescanConf
  | CallCheckWalletSyncStatus
  | CallAbortRescan
  | CallGetBlockCount
  | CallRescanWallet int int
  | CallDumpLatestRescanTime
  | SetIsPendingScan bool
  | LogRunTheNumbers int int rat
  | SendInterruptSignal
  | SendImportDone
  | ReceiveImportDone
  | CloseImportDone

section \<open>Status aggregator\<close>

definition base_status :: "string \<Rightarrow> 'j Bus \<Rightarrow> ExplorerStatus" where
  "base_status version b =
     \<lparr>Version = version, TxIndex = bus_TxIndex b, Pruned = bus_Pruned b,
      Chain = bus_Chain b, Currency = bus_Currency b, Status = StatusZero,
      SyncProgress = None, ScanProgress = None\<rparr>"

text \<open>
  \<open>GetStatus\<close>, with the version constant and the JSON decoder as parameters. It returns
  the status record together with the calls made on the node client; the deferred
  \<open>Shutdown\<close> is the last call of every path that built a client.
\<close>

definition GetStatus ::
  "string \<Rightarrow> ('j \<Rightarrow> error + customBlockChainInfo) \<Rightarrow> 'j Bus \<Rightarrow> ExplorerStatus \<times> event list" where
  "GetStatus version unmarshal b =
     (let status = base_status version b in
      if IsPendingScan b then (status\<lparr>Status := PendingScan\<rparr>, [])
      else
        (case ClientFactory b of
           Inl err \<Rightarrow> (status\<lparr>Status := NodeDisconnected\<rparr>, [CallClientFactory])
         | Inr client \<Rightarrow>
             (case RawRequest client ''getblockchaininfo'' of
                Inl err \<Rightarrow>
                  (status\<lparr>Status := NodeDisconnected\<rparr>,
                   [CallClientFactory, CallRawRequest ''getblockchaininfo'', CallShutdown])
              | Inr result \<Rightarrow>
                  (case unmarshal result of
                     Inl err \<Rightarrow>
                       (status\<lparr>Status := NodeDisconnected\<rparr>,
                        [CallClientFactory, CallRawRequest ''getblockchaininfo'', CallShutdown])
                   | Inr blockChainInfo \<Rightarrow>
                       if Blocks blockChainInfo \<noteq> Headers blockChainInfo then
                         (status\<lparr>Status := Syncing,
                            SyncProgress :=
                              Some (f64_mul (VerificationProgress blockChainInfo) (Finite 100))\<rparr>,
                          [CallClientFactory, CallRawRequest ''getblockchaininfo'', CallShutdown])
                       else
                         (case GetWalletInfo client of
                            Inl err \<Rightarrow>
                              (status\<lparr>Status := NodeDisconnected\<rparr>,
                               [CallClientFactory, CallRawRequest ''getblockchaininfo'',
                                CallGetWalletInfo, CallShutdown])
                          | Inr walletInfo \<Rightarrow>
                              (case ScanningState walletInfo of
                                 ScanProgressValue progress duration \<Rightarrow>
                                   (status\<lparr>Status := Scanning,
                                      ScanProgress := Some (f64_mul progress (Finite 100))\<rparr>,
                                    [CallClientFactory, CallRawRequest ''getblockchaininfo'',
                                     CallGetWalletInfo, CallShutdown])
                               | _ \<Rightarrow>
                                   (status\<lparr>Status := Ready\<rparr>,
                                    [CallClientFactory, CallRawRequest ''getblockchaininfo'',
                                     CallGetWalletInfo, CallShutdown])))))))"

text \<open>
  \<open>GetNetwork\<close> returns a pointer: \<open>None\<close> is nil, the initial value of the named result.
  \<open>new(bus.Network)\<close> is the zero-valued record.
\<close>

definition new_Network :: Network where
  "new_Network = \<lparr>RelayFee = 0, IncrementalFee = 0, NodeVersion = 0, Subversion = ''''\<rparr>"

definition GetNetwork ::
  "('j \<Rightarrow> error + customNetworkInfo) \<Rightarrow> 'j Bus \<Rightarrow> Network option" where
  "GetNetwork unmarshal b =
     (case ClientFactory b of
        Inl err \<Rightarrow> Some new_Network
      | Inr client \<Rightarrow>
          (case RawRequest client ''getnetworkinfo'' of
             Inl err \<Rightarrow> Some new_Network
           | Inr result \<Rightarrow>
               (case unmarshal result of
                  Inl err \<Rightarrow> Some new_Network
                | Inr networkInfo \<Rightarrow>
                    Some \<lparr>RelayFee = info_RelayFee networkInfo,
                          IncrementalFee = info_IncrementalFee networkInfo,
                          NodeVersion = info_Version networkInfo,
                          Subversion = info_Subversion networkInfo\<rparr>)))"

section \<open>Import coordinator\<close>

text \<open>
  Modelled from the spec: the \<open>config.Account\<close> type, declared outside the files at hand.
  An account has an external-chain and an internal-chain descriptor string, an optional
  derivation depth and an optional birthday (here in Unix seconds); \<open>None\<close> is the nil
  pointer of the optional fields.
\<close>

record Account =
  External :: string
  Internal :: string
  AccountDepth :: "int option"
  Birthday :: "int option"

text \<open>
  The two constants that \<open>descriptors\<close> falls back to, \<open>defaultAccountDepth\<close> and
  the Unix time of \<open>config.BIP0039Genesis\<close>, are parameters of the model.
\<close>

record Defaults =
  defaultAccountDepth :: int
  BIP0039Genesis :: int

text \<open>\<open>strings.Split(s, "#")[0]\<close>: the part of \<open>s\<close> before its first \<open>#\<close>.\<close>

definition strip_checksum :: "string \<Rightarrow> string" where
  "strip_checksum s = takeWhile (\<lambda>c. c \<noteq> CHR ''#'') s"

text \<open>The loop of \<open>descriptors\<close> over the raw descriptor strings, \<open>ret\<close> being its accumulator.\<close>

fun canonical_loop ::
  "'j Client \<Rightarrow> int \<Rightarrow> 32 word \<Rightarrow> string list \<Rightarrow> descriptor list
     \<Rightarrow> (error + descriptor list) \<times> event list" where
  "canonical_loop client depth age [] ret = (Inr ret, [])"
| "canonical_loop client depth age (desc # rawDescs) ret =
     (case GetCanonicalDescriptor client desc of
        Inl err \<Rightarrow> (Inl (ErrInvalidDescriptor err), [CallGetCanonicalDescriptor desc])
      | Inr canonicalDesc \<Rightarrow>
          (case canonical_loop client depth age rawDescs
                  (ret @ [\<lparr>Value = canonicalDesc, Depth = depth, Age = age\<rparr>]) of
             (r, calls) \<Rightarrow> (r, CallGetCanonicalDescriptor desc # calls)))"

definition descriptors ::
  "Defaults \<Rightarrow> 'j Client \<Rightarrow> Account \<Rightarrow> (error + descriptor list) \<times> event list" where
  "descriptors k client account =
     (let depth = (case AccountDepth account of None \<Rightarrow> defaultAccountDepth k | Some d \<Rightarrow> d);
          age = (case Birthday account of
                   None \<Rightarrow> (word_of_int (BIP0039Genesis k) :: 32 word)
                 | Some t \<Rightarrow> word_of_int t);
          rawDescs = [strip_checksum (External account), strip_checksum (Internal account)]
      in canonical_loop client depth age rawDescs [])"

text \<open>The first loop of \<open>ImportAccounts\<close>, accumulating \<open>allDescriptors\<close>.\<close>

fun resolve_accounts ::
  "Defaults \<Rightarrow> 'j Client \<Rightarrow> Account list \<Rightarrow> descriptor list
     \<Rightarrow> (error + descriptor list) \<times> event list" where
  "resolve_accounts k client [] allDescriptors = (Inr allDescriptors, [])"
| "resolve_accounts k client (account # accounts) allDescriptors =
     (case descriptors k client account of
        (Inl err, calls) \<Rightarrow> (Inl err, calls)
      | (Inr accountDescriptors, calls) \<Rightarrow>
          (case resolve_accounts k client accounts (allDescriptors @ accountDescriptors) of
             (r, calls') \<Rightarrow> (r, calls @ calls')))"

text \<open>The second loop of \<open>ImportAccounts\<close>, accumulating \<open>descriptorsToImport\<close>.\<close>

fun select_loop ::
  "'j Client \<Rightarrow> descriptor list \<Rightarrow> descriptor list
     \<Rightarrow> (error + descriptor list) \<times> event list" where
  "select_loop client [] descriptorsToImport = (Inr descriptorsToImport, [])"
| "select_loop client (d # allDescriptors) descriptorsToImport =
     (case DeriveAddress client (Value d) (Depth d) of
        Inl err \<Rightarrow>
          (Inl (ErrDeriveAddress (Value d) (Depth d) err),
           [CallDeriveAddress (Value d) (Depth d)])
      | Inr address \<Rightarrow>
          (case GetAddressInfo client address of
             Inl err \<Rightarrow>
               (Inl (ErrAddressInfo address err),
                [CallDeriveAddress (Value d) (Depth d), CallGetAddressInfo address])
           | Inr isWatchOnly \<Rightarrow>
               (case select_loop client allDescriptors
                       (if \<not> isWatchOnly then descriptorsToImport @ [d]
                        else descriptorsToImport) of
                  (r, calls) \<Rightarrow>
                    (r, CallDeriveAddress (Value d) (Depth d)
                          # CallGetAddressInfo address # calls))))"

text \<open>
  \<open>ImportAccounts\<close>. The slice argument is \<open>None\<close> when nil and \<open>Some\<close> of its elements
  otherwise; the result is the returned error (\<open>None\<close> for nil) and the calls made, the
  deferred \<open>Shutdown\<close> last.
\<close>

definition ImportAccounts ::
  "Defaults \<Rightarrow> 'j Bus \<Rightarrow> Account list option \<Rightarrow> error option \<times> event list" where
  "ImportAccounts k b accounts =
     (case accounts of
        None \<Rightarrow> (None, [])
      | Some accs \<Rightarrow>
          (case ClientFactory b of
             Inl err \<Rightarrow> (Some err, [CallClientFactory])
           | Inr client \<Rightarrow>
               (case resolve_accounts k client accs [] of
                  (Inl err, calls) \<Rightarrow> (Some err, CallClientFactory # calls @ [CallShutdown])
                | (Inr allDescriptors, calls) \<Rightarrow>
                    (case select_loop client allDescriptors [] of
                       (Inl err, calls') \<Rightarrow>
                         (Some err, CallClientFactory # calls @ calls' @ [CallShutdown])
                     | (Inr descriptorsToImport, calls') \<Rightarrow>
                         if length descriptorsToImport = 0 then
                           (None, CallClientFactory # calls @ calls' @ [CallShutdown])
                         else
                           (ImportDescriptors client descriptorsToImport,
                            CallClientFactory # calls @ calls'
                              @ [CallImportDescriptors descriptorsToImport, CallShutdown])))))"

text \<open>The bulk import requests among the calls of a run, in order.\<close>

fun bulk_imports :: "event list \<Rightarrow> descriptor list list" where
  "bulk_imports [] = []"
| "bulk_imports (CallImportDescriptors ds # calls) = ds # bulk_imports calls"
| "bulk_imports (_ # calls) = bulk_imports calls"

text \<open>
  Whether the node reports the address derived from a descriptor as watch-only; a failed
  derivation or lookup reports nothing.
\<close>

definition reported_watch_only :: "'j Client \<Rightarrow> descriptor \<Rightarrow> bool" where
  "reported_watch_only client d =
     (case DeriveAddress client (Value d) (Depth d) of
        Inl err \<Rightarrow> False
      | Inr address \<Rightarrow>
          (case GetAddressInfo client address of Inl err \<Rightarrow> False | Inr w \<Rightarrow> w))"

text \<open>Whether an error carries the value and the depth of a descriptor among its arguments.\<close>

fun wraps_descriptor :: "error \<Rightarrow> descriptor \<Rightarrow> bool" where
  "wraps_descriptor (ErrDeriveAddress v n cause) d =
     ((v = Value d \<and> n = Depth d) \<or> wraps_descriptor cause d)"
| "wraps_descriptor (ErrInvalidDescriptor cause) d = wraps_descriptor cause d"
| "wraps_descriptor (ErrAddressInfo address cause) d = wraps_descriptor cause d"
| "wraps_descriptor (ErrParseBlockChainInfo cause) d = wraps_descriptor cause d"
| "wraps_descriptor (Upstream msg) d = False"

section \<open>Sync worker\<close>

subsection \<open>Waiting for the initial block download\<close>



subsection \<open>Supply audit\<close>

record TxOutSetInfo =
  Height :: int
  TotalAmount :: rat

definition halvingBlocks :: int where
  "halvingBlocks = 210000"

text \<open>Division of Go's integers truncates towards zero.\<close>

definition go_div :: "int \<Rightarrow> int \<Rightarrow> int" where
  "go_div a b = (if (a < 0) = (b < 0) then \<bar>a\<bar> div \<bar>b\<bar> else - (\<bar>a\<bar> div \<bar>b\<bar>))"

text \<open>
  The loop of \<open>runTheNumbers\<close> over the complete halving epochs. It returns the final
  values of \<open>i\<close>, \<open>subsidy\<close> and \<open>supply\<close>. Each \<open>float64\<close> operation rounds its own
  result: the product \<open>halvingBlocks * subsidy\<close> and the sum are not fused.
\<close>

function halving_loop ::
  "int \<Rightarrow> int \<Rightarrow> float64 \<Rightarrow> float64 \<Rightarrow> int \<times> float64 \<times> float64" where
  "halving_loop height i subsidy supply =
     (if i < go_div height halvingBlocks then
        halving_loop height (i + 1) (f64_halve subsidy)
          (f64_add supply (f64_mul (Finite (of_int halvingBlocks)) subsidy))
      else (i, subsidy, supply))"
  by pat_completeness auto
termination
  by (relation "measure (\<lambda>(height, i, subsidy, supply). nat (go_div height halvingBlocks - i))")
    auto

text \<open>The value of \<open>supply\<close> that \<open>runTheNumbers\<close> hands to \<open>btcutil.NewAmount\<close>.\<close>

definition expected_supply :: "int \<Rightarrow> float64" where
  "expected_supply height =
     (case halving_loop height 0 (Finite 50) (Finite 0) of
        (i, subsidy, supply) \<Rightarrow>
          f64_add supply (f64_mul subsidy (f64_of_int (height - halvingBlocks * i))))"


subsection \<open>Orchestrator and watchdog\<close>

text \<open>
  What the collaborators of the orchestrator answer. \<open>checkWalletSyncStatus\<close>,
  \<open>AbortRescan\<close>, \<open>rescanWallet\<close>, \<open>DumpLatestRescanTime\<close> and the package variable
  \<open>isNewWallet\<close> are declared outside the files at hand and are parameters here, as is
  \<open>btcutil.NewAmount\<close>; \<open>checkWalletSyncStatus\<close> answers an error or the value that it
  leaves in \<open>IsPendingScan\<close>. \<open>GetBlockCount\<close> answers both of its results, since the
  worker ignores the error.
\<close>

record 'j WorkerEnv =
  ChainReplies :: "(error + 'j) list"
  GetTxOutSetInfo :: "error + TxOutSetInfo"
  NewAmount :: "float64 \<Rightarrow> error + int"
  LoadRescanConf :: "error + int"
  isNewWallet :: bool
  checkWalletSyncStatus :: "error + bool"
  AbortRescan :: "error option"
  GetBlockCount :: "int \<times> error option"
  rescanWallet :: "int \<Rightarrow> int \<Rightarrow> error option"
  DumpLatestRescanTime :: "error option"

definition getPreviousRescanBlock :: "'j WorkerEnv \<Rightarrow> int \<times> error option" where
  "getPreviousRescanBlock env =
     (case LoadRescanConf env of
        Inl err \<Rightarrow> (- 1, Some err)
      | Inr lastBlock \<Rightarrow> (lastBlock, None))"


text \<open>The branch of the worker that imports the descriptors.\<close>

definition importing ::
  "Defaults \<Rightarrow> 'j WorkerEnv \<Rightarrow> 'j Bus \<Rightarrow> Account list option \<Rightarrow> bool
     \<Rightarrow> error option \<times> event list" where
  "importing k env b accounts forceImportDesc =
     (case (if forceImportDesc then
              (case checkWalletSyncStatus env of
                 Inl err \<Rightarrow> (Some err, [CallCheckWalletSyncStatus])
               | Inr pending \<Rightarrow>
                   if pending then (AbortRescan env, [CallCheckWalletSyncStatus, CallAbortRescan])
                   else (None, [CallCheckWalletSyncStatus]))
            else (None, [])) of
        (Some err, events) \<Rightarrow> (Some err, events)
      | (None, events) \<Rightarrow>
          (case ImportAccounts k b accounts of
             (Some err, calls) \<Rightarrow> (Some err, events @ SetIsPendingScan True # calls)
           | (None, calls) \<Rightarrow>
               (None, events @ SetIsPendingScan True # calls @ [SetIsPendingScan False])))"

text \<open>The branch of the worker that rescans from the stored height to the tip.\<close>

definition resuming :: "'j WorkerEnv \<Rightarrow> int \<Rightarrow> error option \<times> event list" where
  "resuming env startHeight =
     (case checkWalletSyncStatus env of
        Inl err \<Rightarrow> (Some err, [CallCheckWalletSyncStatus])
      | Inr pending \<Rightarrow>
          (let events = (if pending then [CallCheckWalletSyncStatus, CallAbortRescan]
                         else [CallCheckWalletSyncStatus]);
               endHeight = fst (GetBlockCount env)
           in (rescanWallet env startHeight endHeight,
               events @ [CallGetBlockCount, CallRescanWallet startHeight endHeight])))"

text \<open>The read of the stored height and the choice between the two branches.\<close>

definition deciding ::
  "Defaults \<Rightarrow> 'j WorkerEnv \<Rightarrow> 'j Bus \<Rightarrow> Account list option \<Rightarrow> bool
     \<Rightarrow> error option \<times> event list" where
  "deciding k env b accounts forceImportDesc =
     (let startHeight = fst (getPreviousRescanBlock env) in
      case (if forceImportDesc \<or> isNewWallet env \<or> startHeight = - 1 then
              importing k env b accounts forceImportDesc
            else resuming env startHeight) of
        (r, events) \<Rightarrow> (r, CallLoadRescanConf # events))"





section \<open>Auxiliary notions for the statements\<close>

text \<open>Whether deriving the address of a descriptor, or looking the address up, fails.\<close>

definition lookup_fails :: "'j Client \<Rightarrow> descriptor \<Rightarrow> bool" where
  "lookup_fails client d =
     (case DeriveAddress client (Value d) (Depth d) of
        Inl err \<Rightarrow> True
      | Inr address \<Rightarrow>
          (case GetAddressInfo client address of Inl err \<Rightarrow> True | Inr w \<Rightarrow> False))"


fun is_import_call :: "event \<Rightarrow> bool" where
  "is_import_call CallClientFactory = True"
| "is_import_call CallShutdown = True"
| "is_import_call (CallGetCanonicalDescriptor desc) = True"
| "is_import_call (CallDeriveAddress desc depth) = True"
| "is_import_call (CallGetAddressInfo address) = True"
| "is_import_call (CallImportDescriptors ds) = True"
| "is_import_call _ = False"

section \<open>Example inputs\<close>

text \<open>
  A client whose raw request, wallet info and address info answer as given; it appends
  \<open>#canon\<close> to canonicalise a descriptor and derives one address per branch.
\<close>

definition ex_client ::
  "(error + string) \<Rightarrow> (error + WalletInfo) \<Rightarrow> (string \<Rightarrow> error + bool) \<Rightarrow> string Client" where
  "ex_client raw walletInfo addressInfo =
     \<lparr>RawRequest = (\<lambda>method. raw), GetWalletInfo = walletInfo,
      GetCanonicalDescriptor = (\<lambda>desc. Inr (desc @ ''#canon'')),
      DeriveAddress =
        (\<lambda>desc depth. if desc = ''wpkh(xpubA/0/*)#canon'' then Inr ''bc1qexternal''
                       else Inr ''bc1qinternal''),
      GetAddressInfo = addressInfo,
      ImportDescriptors = (\<lambda>ds. None)\<rparr>"

definition ex_bus :: "bool \<Rightarrow> (error + string Client) \<Rightarrow> string Bus" where
  "ex_bus pending factory =
     \<lparr>bus_TxIndex = True, bus_Pruned = False, bus_Chain = ''main'', bus_Currency = ''btc'',
      IsPendingScan = pending, ClientFactory = factory\<rparr>"

definition ex_unmarshal :: "string \<Rightarrow> error + customBlockChainInfo" where
  "ex_unmarshal j =
     (if j = ''syncing'' then
        Inr \<lparr>Blocks = 100, Headers = 200,
             VerificationProgress = Finite (3332663724254167 / 9007199254740992), Warnings = []\<rparr>
      else if j = ''synced'' then
        Inr \<lparr>Blocks = 200, Headers = 200, VerificationProgress = Finite 1, Warnings = []\<rparr>
      else Inl (Upstream ''unexpected end of JSON input''))"

definition ex_unmarshal_network :: "string \<Rightarrow> error + customNetworkInfo" where
  "ex_unmarshal_network j =
     (if j = ''network'' then
        Inr \<lparr>info_RelayFee = 1 / 100000, info_IncrementalFee = 1 / 100000,
             info_Version = 270000, info_Subversion = ''/Satoshi:27.0.0/'', info_Warnings = []\<rparr>
      else Inl (Upstream ''unexpected end of JSON input''))"


definition ex_defaults :: Defaults where
  "ex_defaults = \<lparr>defaultAccountDepth = 1000, BIP0039Genesis = 1380585600\<rparr>"

definition ex_account :: Account where
  "ex_account =
     \<lparr>External = ''wpkh(xpubA/0/*)#abcdefgh'', Internal = ''wpkh(xpubA/1/*)#ijklmnop'',
      AccountDepth = None, Birthday = None\<rparr>"

definition ex_external :: descriptor where
  "ex_external = \<lparr>Value = ''wpkh(xpubA/0/*)#canon'', Depth = 1000, Age = 1380585600\<rparr>"

definition ex_internal :: descriptor where
  "ex_internal = \<lparr>Value = ''wpkh(xpubA/1/*)#canon'', Depth = 1000, Age = 1380585600\<rparr>"

definition ex_NewAmount :: "float64 \<Rightarrow> error + int" where
  "ex_NewAmount f =
     (case f of
        Finite r \<Rightarrow>
          Inr (if r < 0 then \<lceil>r * 100000000 - 1 / 2\<rceil> else \<lfloor>r * 100000000 + 1 / 2\<rfloor>)
      | _ \<Rightarrow> Inl (Upstream ''invalid bitcoin amount''))"

definition ex_env :: "(error + string) list \<Rightarrow> bool \<Rightarrow> (error + int) \<Rightarrow> string WorkerEnv" where
  "ex_env replies new conf =
     \<lparr>ChainReplies = replies,
      GetTxOutSetInfo = Inr \<lparr>Height = 420000, TotalAmount = 15750000\<rparr>,
      NewAmount = ex_NewAmount,
      LoadRescanConf = conf, isNewWallet = new,
      checkWalletSyncStatus = Inr False, AbortRescan = None,
      GetBlockCount = (840000, None), rescanWallet = (\<lambda>startHeight endHeight. None),
      DumpLatestRescanTime = None\<rparr>"

section \<open>Properties of the floating-point operations\<close>

text \<open>
  The exponent is the one of the binade of the number, and rounding to an integer moves
  a number by a half at most.
\<close>

lemma f64_exponent_correct:
  assumes "r \<noteq> 0"
  shows "pow2 (f64_exponent r) \<le> \<bar>r\<bar> \<and> \<bar>r\<bar> < pow2 (f64_exponent r + 1)"
proof (cases "1 \<le> \<bar>r\<bar>")
  case True
  let ?n = "\<lfloor>\<bar>r\<bar>\<rfloor>"
  let ?l = "nat (bitlen ?n - 1)"
  from True have pos: "0 < ?n" by simp
  then have len: "1 \<le> bitlen ?n" using bitlen_eq_zero_iff [of ?n] bitlen_nonneg [of ?n] by linarith
  from bitlen_bounds [OF pos] have lo: "2 ^ ?l \<le> ?n" and hi: "?n < 2 ^ nat (bitlen ?n)"
    by simp_all
  have suc: "nat (bitlen ?n) = Suc ?l" using len by simp
  have e: "f64_exponent r = int ?l" using True len by (simp add: f64_exponent_def)
  have p: "pow2 (f64_exponent r) = rat_of_int (2 ^ ?l)"
    unfolding e pow2_def by simp
  have "rat_of_int (2 ^ ?l) \<le> rat_of_int ?n" using lo by (simp only: of_int_le_iff)
  also have "\<dots> \<le> \<bar>r\<bar>" by simp
  finally have low: "pow2 (f64_exponent r) \<le> \<bar>r\<bar>" unfolding p .
  from hi have "?n + 1 \<le> 2 ^ Suc ?l" unfolding suc by simp
  then have "rat_of_int (?n + 1) \<le> rat_of_int (2 ^ Suc ?l)" by (simp only: of_int_le_iff)
  moreover have "\<bar>r\<bar> < rat_of_int (?n + 1)" using floor_correct [of "\<bar>r\<bar>"] by blast
  ultimately have "\<bar>r\<bar> < rat_of_int (2 ^ Suc ?l)" by linarith
  moreover have "pow2 (f64_exponent r + 1) = rat_of_int (2 ^ Suc ?l)"
    by (simp add: e pow2_def nat_add_distrib)
  ultimately show ?thesis using low by simp
next
  case False
  let ?y = "1 / \<bar>r\<bar>"
  let ?m = "\<lceil>?y\<rceil> - 1"
  let ?c = "bitlen ?m"
  from False assms have y1: "1 < ?y" by simp
  then have "1 < \<lceil>?y\<rceil>" by (simp add: less_ceiling_iff)
  then have pos: "0 < ?m" by simp
  then have len: "1 \<le> ?c" using bitlen_eq_zero_iff [of ?m] bitlen_nonneg [of ?m] by linarith
  from bitlen_bounds [OF pos] have lo: "2 ^ nat (?c - 1) \<le> ?m" and hi: "?m < 2 ^ nat ?c"
    by simp_all
  have e: "f64_exponent r = - ?c" using False by (simp add: f64_exponent_def)
  have rpos: "0 < \<bar>r\<bar>" using assms by simp
  have "\<lceil>?y\<rceil> \<le> 2 ^ nat ?c" using hi by simp
  then have "rat_of_int \<lceil>?y\<rceil> \<le> rat_of_int (2 ^ nat ?c)" by (simp only: of_int_le_iff)
  then have a: "rat_of_int \<lceil>?y\<rceil> \<le> 2 ^ nat ?c" by (simp only: of_int_power of_int_numeral)
  have b: "?y \<le> rat_of_int \<lceil>?y\<rceil>" by (rule le_of_int_ceiling)
  from b a have up: "?y \<le> 2 ^ nat ?c" by (rule order_trans)
  have "1 \<le> \<bar>r\<bar> * 2 ^ nat ?c"
    using up rpos by (simp add: divide_le_eq mult.commute)
  then have low: "1 / 2 ^ nat ?c \<le> \<bar>r\<bar>"
    by (simp add: divide_le_eq)
  have "rat_of_int (2 ^ nat (?c - 1)) \<le> rat_of_int ?m" using lo by (simp only: of_int_le_iff)
  then have c1: "2 ^ nat (?c - 1) \<le> rat_of_int ?m" by (simp only: of_int_power of_int_numeral)
  have "rat_of_int ?m = rat_of_int \<lceil>?y\<rceil> - 1" by simp
  with ceiling_correct [of ?y] have d: "rat_of_int ?m < ?y" by linarith
  from c1 d have down: "2 ^ nat (?c - 1) < ?y" by (rule le_less_trans)
  then have "\<bar>r\<bar> * 2 ^ nat (?c - 1) < 1"
    using rpos by (simp add: less_divide_eq mult.commute)
  then have high: "\<bar>r\<bar> < 1 / 2 ^ nat (?c - 1)"
    by (simp add: less_divide_eq)
  have p1: "pow2 (f64_exponent r) = 1 / 2 ^ nat ?c"
    using len by (simp add: e pow2_def)
  have p2: "pow2 (f64_exponent r + 1) = 1 / 2 ^ nat (?c - 1)"
  proof (cases "?c = 1")
    case True
    then show ?thesis by (simp add: e pow2_def)
  next
    case False
    with len have neg: "\<not> 0 \<le> - ?c + 1" and eq: "- (- ?c + 1) = ?c - 1" by simp_all
    show ?thesis unfolding e pow2_def by (simp only: neg if_False eq) simp
  qed
  show ?thesis unfolding p1 p2 using low high by blast
qed

lemma round_half_even_nearest: "\<bar>rat_of_int (round_half_even x) - x\<bar> \<le> 1 / 2"
proof -
  have "rat_of_int \<lfloor>x\<rfloor> \<le> x" and "x < rat_of_int \<lfloor>x\<rfloor> + 1"
    using floor_correct [of x] by simp_all
  then show ?thesis
    by (simp add: round_half_even_def Let_def abs_le_iff)
qed











text \<open>
  Two products in binary64: the number nearest to 0.37 times 100 is 37, and the number
  nearest to 0.07 times 100 is just above 7.
\<close>

lemma f64_round_examples:
  "f64_round (37 / 100) = Finite (3332663724254167 / 9007199254740992)"
  "f64_round (7 / 100) = Finite (1261007895663739 / 18014398509481984)"
  by code_simp+

lemma f64_mul_examples:
  "f64_mul (Finite (3332663724254167 / 9007199254740992)) (Finite 100) = Finite 37"
  "f64_mul (Finite (1261007895663739 / 18014398509481984)) (Finite 100)
     = Finite (7881299347898369 / 1125899906842624)"
  by code_simp+

section \<open>Properties of the status aggregator\<close>

text \<open>
  Claim C1. Whenever the shared flag \<open>IsPendingScan\<close> is set, \<open>GetStatus\<close> returns the
  status \<open>PendingScan\<close>; it makes no call on the node, and its result is the same
  whatever the client factory and the decoder would answer.
\<close>

theorem GetStatus_pending_scan:
  assumes "IsPendingScan b"
  shows "Status (fst (GetStatus version unmarshal b)) = PendingScan
    \<and> snd (GetStatus version unmarshal b) = []
    \<and> GetStatus version unmarshal' (b\<lparr>ClientFactory := factory\<rparr>) = GetStatus version unmarshal b"
  using assms by (simp add: GetStatus_def base_status_def)

theorem GetStatus_pending_scan_witness:
  "IsPendingScan (ex_bus True (Inl (Upstream ''connection refused'')))
   \<and> Status (fst (GetStatus ''0.18.0'' ex_unmarshal (ex_bus True (Inl (Upstream ''connection refused'')))))
       = PendingScan
   \<and> snd (GetStatus ''0.18.0'' ex_unmarshal (ex_bus True (Inl (Upstream ''connection refused'')))) = []
   \<and> GetStatus ''0.18.0'' ex_unmarshal
        (ex_bus True (Inl (Upstream ''connection refused''))
           \<lparr>ClientFactory := Inr (ex_client (Inr ''syncing'') (Inl (Upstream ''timeout'')) (\<lambda>a. Inr False))\<rparr>)
      = GetStatus ''0.18.0'' ex_unmarshal (ex_bus True (Inl (Upstream ''connection refused'')))"
proof -
  have p: "IsPendingScan (ex_bus True (Inl (Upstream ''connection refused'')))"
    by (simp add: ex_bus_def)
  show ?thesis
    using p GetStatus_pending_scan [OF p, of "''0.18.0''" ex_unmarshal ex_unmarshal
        "Inr (ex_client (Inr ''syncing'') (Inl (Upstream ''timeout'')) (\<lambda>a. Inr False))"]
    by simp
qed

text \<open>
  Claim C3. \<open>GetStatus\<close> always returns a status record, whose status is one of the five
  named values, and never an error. A failure of a call that it makes (building the client,
  the raw chain request, decoding the reply, or the wallet info request that follows a
  reply with as many blocks as headers) yields \<open>NodeDisconnected\<close>. With the flag set no
  call is made, so no call can fail.
\<close>

theorem GetStatus_never_fails:
  "Status (fst (GetStatus version unmarshal b)) \<in> {PendingScan, NodeDisconnected, Syncing, Scanning, Ready}
   \<and> (\<not> IsPendingScan b \<and> ClientFactory b = Inl e1 \<longrightarrow>
        Status (fst (GetStatus version unmarshal b)) = NodeDisconnected)
   \<and> (\<not> IsPendingScan b \<and> ClientFactory b = Inr client
        \<and> RawRequest client ''getblockchaininfo'' = Inl e2 \<longrightarrow>
        Status (fst (GetStatus version unmarshal b)) = NodeDisconnected)
   \<and> (\<not> IsPendingScan b \<and> ClientFactory b = Inr client
        \<and> RawRequest client ''getblockchaininfo'' = Inr result \<and> unmarshal result = Inl e3 \<longrightarrow>
        Status (fst (GetStatus version unmarshal b)) = NodeDisconnected)
   \<and> (\<not> IsPendingScan b \<and> ClientFactory b = Inr client
        \<and> RawRequest client ''getblockchaininfo'' = Inr result \<and> unmarshal result = Inr info
        \<and> Blocks info = Headers info \<and> GetWalletInfo client = Inl e4 \<longrightarrow>
        Status (fst (GetStatus version unmarshal b)) = NodeDisconnected)"
  by (simp add: GetStatus_def base_status_def Let_def split: sum.splits ScanningValue.splits)

theorem GetStatus_never_fails_witness:
  "(\<not> IsPendingScan (ex_bus False (Inl (Upstream ''connection refused'')))
      \<and> ClientFactory (ex_bus False (Inl (Upstream ''connection refused'')))
          = Inl (Upstream ''connection refused'')
      \<and> Status (fst (GetStatus ''0.18.0'' ex_unmarshal
          (ex_bus False (Inl (Upstream ''connection refused''))))) = NodeDisconnected)
   \<and> (RawRequest (ex_client (Inl (Upstream ''timeout'')) (Inl (Upstream ''timeout'')) (\<lambda>a. Inr False))
        ''getblockchaininfo'' = Inl (Upstream ''timeout'')
      \<and> Status (fst (GetStatus ''0.18.0'' ex_unmarshal
          (ex_bus False (Inr (ex_client (Inl (Upstream ''timeout'')) (Inl (Upstream ''timeout''))
             (\<lambda>a. Inr False)))))) = NodeDisconnected)
   \<and> (RawRequest (ex_client (Inr ''{'') (Inl (Upstream ''timeout'')) (\<lambda>a. Inr False))
        ''getblockchaininfo'' = Inr ''{''
      \<and> ex_unmarshal ''{'' = Inl (Upstream ''unexpected end of JSON input'')
      \<and> Status (fst (GetStatus ''0.18.0'' ex_unmarshal
          (ex_bus False (Inr (ex_client (Inr ''{'') (Inl (Upstream ''timeout''))
             (\<lambda>a. Inr False)))))) = NodeDisconnected)
   \<and> (RawRequest (ex_client (Inr ''synced'') (Inl (Upstream ''timeout'')) (\<lambda>a. Inr False))
        ''getblockchaininfo'' = Inr ''synced''
      \<and> ex_unmarshal ''synced''
          = Inr \<lparr>Blocks = 200, Headers = 200, VerificationProgress = Finite 1, Warnings = []\<rparr>
      \<and> GetWalletInfo (ex_client (Inr ''synced'') (Inl (Upstream ''timeout'')) (\<lambda>a. Inr False))
          = Inl (Upstream ''timeout'')
      \<and> Status (fst (GetStatus ''0.18.0'' ex_unmarshal
          (ex_bus False (Inr (ex_client (Inr ''synced'') (Inl (Upstream ''timeout''))
             (\<lambda>a. Inr False)))))) = NodeDisconnected)"
proof -
  let ?down = "ex_bus False (Inl (Upstream ''connection refused''))"
  let ?c2 = "ex_client (Inl (Upstream ''timeout'')) (Inl (Upstream ''timeout'')) (\<lambda>a. Inr False)"
  let ?c3 = "ex_client (Inr ''{'') (Inl (Upstream ''timeout'')) (\<lambda>a. Inr False)"
  let ?c4 = "ex_client (Inr ''synced'') (Inl (Upstream ''timeout'')) (\<lambda>a. Inr False)"
  let ?info = "\<lparr>Blocks = 200, Headers = 200, VerificationProgress = Finite 1, Warnings = []\<rparr>"
  have h1: "\<not> IsPendingScan ?down" "ClientFactory ?down = Inl (Upstream ''connection refused'')"
    by (simp_all add: ex_bus_def)
  have h2: "\<not> IsPendingScan (ex_bus False (Inr ?c2))" "ClientFactory (ex_bus False (Inr ?c2)) = Inr ?c2"
    "RawRequest ?c2 ''getblockchaininfo'' = Inl (Upstream ''timeout'')"
    by (simp_all add: ex_bus_def ex_client_def)
  have h3: "\<not> IsPendingScan (ex_bus False (Inr ?c3))" "ClientFactory (ex_bus False (Inr ?c3)) = Inr ?c3"
    "RawRequest ?c3 ''getblockchaininfo'' = Inr ''{''"
    "ex_unmarshal ''{'' = Inl (Upstream ''unexpected end of JSON input'')"
    by (simp_all add: ex_bus_def ex_client_def ex_unmarshal_def)
  have h4: "\<not> IsPendingScan (ex_bus False (Inr ?c4))" "ClientFactory (ex_bus False (Inr ?c4)) = Inr ?c4"
    "RawRequest ?c4 ''getblockchaininfo'' = Inr ''synced''"
    "ex_unmarshal ''synced'' = Inr ?info" "Blocks ?info = Headers ?info"
    "GetWalletInfo ?c4 = Inl (Upstream ''timeout'')"
    by (simp_all add: ex_bus_def ex_client_def ex_unmarshal_def)
  from h1 GetStatus_never_fails [of "''0.18.0''" ex_unmarshal ?down "Upstream ''connection refused''"]
  have s1: "Status (fst (GetStatus ''0.18.0'' ex_unmarshal ?down)) = NodeDisconnected"
    by blast
  from h2 GetStatus_never_fails [of "''0.18.0''" ex_unmarshal "ex_bus False (Inr ?c2)" _ ?c2
      "Upstream ''timeout''"]
  have s2: "Status (fst (GetStatus ''0.18.0'' ex_unmarshal (ex_bus False (Inr ?c2)))) = NodeDisconnected"
    by blast
  from h3 GetStatus_never_fails [of "''0.18.0''" ex_unmarshal "ex_bus False (Inr ?c3)" _ ?c3 _
      "''{''" "Upstream ''unexpected end of JSON input''"]
  have s3: "Status (fst (GetStatus ''0.18.0'' ex_unmarshal (ex_bus False (Inr ?c3)))) = NodeDisconnected"
    by blast
  from h4 GetStatus_never_fails [of "''0.18.0''" ex_unmarshal "ex_bus False (Inr ?c4)" _ ?c4 _
      "''synced''" _ ?info "Upstream ''timeout''"]
  have s4: "Status (fst (GetStatus ''0.18.0'' ex_unmarshal (ex_bus False (Inr ?c4)))) = NodeDisconnected"
    by blast
  from h1 h2 h3 h4 s1 s2 s3 s4 show ?thesis by blast
qed

text \<open>
  Claim C4. With the flag unset and the chain reply obtained and decoded, a reply whose
  blocks differ from its headers yields \<open>Syncing\<close> with the progress set to the
  \<open>float64\<close> product of the verification progress and 100. The instance below is the
  reply with 100 blocks, 200 headers and the verification progress 0.37, that is, the
  binary64 number nearest to it: its progress is exactly 37.
\<close>

theorem GetStatus_syncing:
  assumes "\<not> IsPendingScan b"
    and "ClientFactory b = Inr client"
    and "RawRequest client ''getblockchaininfo'' = Inr result"
    and "unmarshal result = Inr info"
    and "Blocks info \<noteq> Headers info"
  shows "Status (fst (GetStatus version unmarshal b)) = Syncing
    \<and> SyncProgress (fst (GetStatus version unmarshal b))
        = Some (f64_mul (VerificationProgress info) (Finite 100))"
  using assms by (simp add: GetStatus_def base_status_def)

theorem GetStatus_syncing_witness:
  "\<not> IsPendingScan (ex_bus False (Inr (ex_client (Inr ''syncing'') (Inl (Upstream ''timeout'')) (\<lambda>a. Inr False))))
   \<and> ex_unmarshal ''syncing''
       = Inr \<lparr>Blocks = 100, Headers = 200,
              VerificationProgress = Finite (3332663724254167 / 9007199254740992), Warnings = []\<rparr>
   \<and> f64_round (37 / 100) = Finite (3332663724254167 / 9007199254740992)
   \<and> (100 :: 32 word) \<noteq> 200
   \<and> Status (fst (GetStatus ''0.18.0'' ex_unmarshal
        (ex_bus False (Inr (ex_client (Inr ''syncing'') (Inl (Upstream ''timeout'')) (\<lambda>a. Inr False))))))
       = Syncing
   \<and> SyncProgress (fst (GetStatus ''0.18.0'' ex_unmarshal
        (ex_bus False (Inr (ex_client (Inr ''syncing'') (Inl (Upstream ''timeout'')) (\<lambda>a. Inr False))))))
       = Some (Finite 37)"
proof -
  let ?c = "ex_client (Inr ''syncing'') (Inl (Upstream ''timeout'')) (\<lambda>a. Inr False)"
  let ?info = "\<lparr>Blocks = 100, Headers = 200,
    VerificationProgress = Finite (3332663724254167 / 9007199254740992), Warnings = []\<rparr>"
  have h: "\<not> IsPendingScan (ex_bus False (Inr ?c))" "ClientFactory (ex_bus False (Inr ?c)) = Inr ?c"
    "RawRequest ?c ''getblockchaininfo'' = Inr ''syncing''" "ex_unmarshal ''syncing'' = Inr ?info"
    by (simp_all add: ex_bus_def ex_client_def ex_unmarshal_def)
  have w: "(100 :: 32 word) \<noteq> 200" by simp
  then have ne: "Blocks ?info \<noteq> Headers ?info" by simp
  have sel: "VerificationProgress ?info = Finite (3332663724254167 / 9007199254740992)"
    by simp
  have v: "f64_mul (VerificationProgress ?info) (Finite 100) = Finite 37"
    unfolding sel by (rule f64_mul_examples(1))
  from h ne GetStatus_syncing [of "ex_bus False (Inr ?c)" ?c "''syncing''" ex_unmarshal ?info "''0.18.0''"]
  have "Status (fst (GetStatus ''0.18.0'' ex_unmarshal (ex_bus False (Inr ?c)))) = Syncing"
    and "SyncProgress (fst (GetStatus ''0.18.0'' ex_unmarshal (ex_bus False (Inr ?c)))) = Some (Finite 37)"
    unfolding v by blast+
  with h(1,4) w f64_round_examples(1) show ?thesis by blast
qed

text \<open>
  Claim C10. \<open>GetNetwork\<close> never returns nil. When building the client, the raw request
  or the decoding fails, it returns the zero-valued network record (both fees 0, version
  0, empty subversion); otherwise it returns the four decoded fields.
\<close>

theorem GetNetwork_never_nil:
  "GetNetwork unmarshal b \<noteq> None
   \<and> new_Network = \<lparr>RelayFee = 0, IncrementalFee = 0, NodeVersion = 0, Subversion = ''''\<rparr>
   \<and> (ClientFactory b = Inl e1 \<longrightarrow> GetNetwork unmarshal b = Some new_Network)
   \<and> (ClientFactory b = Inr client \<and> RawRequest client ''getnetworkinfo'' = Inl e2 \<longrightarrow>
        GetNetwork unmarshal b = Some new_Network)
   \<and> (ClientFactory b = Inr client \<and> RawRequest client ''getnetworkinfo'' = Inr result
        \<and> unmarshal result = Inl e3 \<longrightarrow>
        GetNetwork unmarshal b = Some new_Network)
   \<and> (ClientFactory b = Inr client \<and> RawRequest client ''getnetworkinfo'' = Inr result
        \<and> unmarshal result = Inr networkInfo \<longrightarrow>
        GetNetwork unmarshal b =
          Some \<lparr>RelayFee = info_RelayFee networkInfo,
                IncrementalFee = info_IncrementalFee networkInfo,
                NodeVersion = info_Version networkInfo,
                Subversion = info_Subversion networkInfo\<rparr>)"
  by (simp add: GetNetwork_def new_Network_def split: sum.splits)

theorem GetNetwork_never_nil_witness:
  "(ClientFactory (ex_bus False (Inl (Upstream ''connection refused'')))
        = Inl (Upstream ''connection refused'')
      \<and> GetNetwork ex_unmarshal_network (ex_bus False (Inl (Upstream ''connection refused'')))
          = Some new_Network)
   \<and> (RawRequest (ex_client (Inl (Upstream ''timeout'')) (Inl (Upstream ''timeout'')) (\<lambda>a. Inr False))
        ''getnetworkinfo'' = Inl (Upstream ''timeout'')
      \<and> GetNetwork ex_unmarshal_network
          (ex_bus False (Inr (ex_client (Inl (Upstream ''timeout'')) (Inl (Upstream ''timeout''))
             (\<lambda>a. Inr False)))) = Some new_Network)
   \<and> (ex_unmarshal_network ''{'' = Inl (Upstream ''unexpected end of JSON input'')
      \<and> GetNetwork ex_unmarshal_network
          (ex_bus False (Inr (ex_client (Inr ''{'') (Inl (Upstream ''timeout''))
             (\<lambda>a. Inr False)))) = Some new_Network)
   \<and> (ex_unmarshal_network ''network''
        = Inr \<lparr>info_RelayFee = 1 / 100000, info_IncrementalFee = 1 / 100000,
               info_Version = 270000, info_Subversion = ''/Satoshi:27.0.0/'', info_Warnings = []\<rparr>
      \<and> GetNetwork ex_unmarshal_network
          (ex_bus False (Inr (ex_client (Inr ''network'') (Inl (Upstream ''timeout''))
             (\<lambda>a. Inr False))))
        = Some \<lparr>RelayFee = 1 / 100000, IncrementalFee = 1 / 100000, NodeVersion = 270000,
                Subversion = ''/Satoshi:27.0.0/''\<rparr>)"
proof -
  let ?down = "ex_bus False (Inl (Upstream ''connection refused''))"
  let ?c2 = "ex_client (Inl (Upstream ''timeout'')) (Inl (Upstream ''timeout'')) (\<lambda>a. Inr False)"
  let ?c3 = "ex_client (Inr ''{'') (Inl (Upstream ''timeout'')) (\<lambda>a. Inr False)"
  let ?c4 = "ex_client (Inr ''network'') (Inl (Upstream ''timeout'')) (\<lambda>a. Inr False)"
  let ?info = "\<lparr>info_RelayFee = 1 / 100000, info_IncrementalFee = 1 / 100000,
               info_Version = 270000, info_Subversion = ''/Satoshi:27.0.0/'', info_Warnings = []\<rparr>"
  have h1: "ClientFactory ?down = Inl (Upstream ''connection refused'')"
    by (simp add: ex_bus_def)
  have h2: "ClientFactory (ex_bus False (Inr ?c2)) = Inr ?c2"
    "RawRequest ?c2 ''getnetworkinfo'' = Inl (Upstream ''timeout'')"
    by (simp_all add: ex_bus_def ex_client_def)
  have h3: "ClientFactory (ex_bus False (Inr ?c3)) = Inr ?c3"
    "RawRequest ?c3 ''getnetworkinfo'' = Inr ''{''"
    "ex_unmarshal_network ''{'' = Inl (Upstream ''unexpected end of JSON input'')"
    by (simp_all add: ex_bus_def ex_client_def ex_unmarshal_network_def)
  have h4: "ClientFactory (ex_bus False (Inr ?c4)) = Inr ?c4"
    "RawRequest ?c4 ''getnetworkinfo'' = Inr ''network''"
    "ex_unmarshal_network ''network'' = Inr ?info"
    by (simp_all add: ex_bus_def ex_client_def ex_unmarshal_network_def)
  from h1 GetNetwork_never_nil [of ex_unmarshal_network ?down "Upstream ''connection refused''"]
  have s1: "GetNetwork ex_unmarshal_network ?down = Some new_Network"
    by blast
  from h2 GetNetwork_never_nil [of ex_unmarshal_network "ex_bus False (Inr ?c2)" _ ?c2
      "Upstream ''timeout''"]
  have s2: "GetNetwork ex_unmarshal_network (ex_bus False (Inr ?c2)) = Some new_Network"
    by blast
  from h3 GetNetwork_never_nil [of ex_unmarshal_network "ex_bus False (Inr ?c3)" _ ?c3 _
      "''{''" "Upstream ''unexpected end of JSON input''"]
  have s3: "GetNetwork ex_unmarshal_network (ex_bus False (Inr ?c3)) = Some new_Network"
    by blast
  from h4 GetNetwork_never_nil [of ex_unmarshal_network "ex_bus False (Inr ?c4)" _ ?c4 _
      "''network''" _ ?info]
  have s4: "GetNetwork ex_unmarshal_network (ex_bus False (Inr ?c4))
      = Some \<lparr>RelayFee = 1 / 100000, IncrementalFee = 1 / 100000, NodeVersion = 270000,
                Subversion = ''/Satoshi:27.0.0/''\<rparr>"
    by simp
  from h1 h2 h3 h4 s1 s2 s3 s4 show ?thesis by blast
qed

section \<open>Properties of the supply audit\<close>






lemma expected_supply_rounds:
  "expected_supply 6300001 = Finite (1409286142687503 / 67108864)"
  "(\<Sum>e<nat (6300001 div 210000). 210000 * (50 / 2 ^ e))
     + 50 / 2 ^ nat (6300001 div 210000) * of_int (6300001 mod 210000)
   = (11274289141500025 / 536870912 :: rat)"
  by code_simp+



section \<open>Properties of the import coordinator\<close>

subsection \<open>The loops\<close>

lemma bulk_imports_append: "bulk_imports (xs @ ys) = bulk_imports xs @ bulk_imports ys"
  by (induction xs rule: bulk_imports.induct) simp_all

lemma canonical_loop_no_import:
  "bulk_imports (snd (canonical_loop client depth age rawDescs ret)) = []"
  by (induction rawDescs arbitrary: ret) (simp_all add: case_prod_beta split: sum.splits)

lemma canonical_loop_failure:
  "fst (canonical_loop client depth age rawDescs ret) = Inl err \<Longrightarrow>
   \<exists>desc\<in>set rawDescs. \<exists>cause.
     GetCanonicalDescriptor client desc = Inl cause \<and> err = ErrInvalidDescriptor cause"
  by (induction rawDescs arbitrary: ret) (auto simp: case_prod_beta split: sum.splits)

lemma canonical_loop_aborts:
  "desc \<in> set rawDescs \<Longrightarrow> GetCanonicalDescriptor client desc = Inl cause \<Longrightarrow>
   \<exists>err. fst (canonical_loop client depth age rawDescs ret) = Inl err"
  by (induction rawDescs arbitrary: ret) (auto simp: case_prod_beta split: sum.splits)

lemma resolve_accounts_no_import:
  "bulk_imports (snd (resolve_accounts k client accounts allDescriptors)) = []"
  by (induction accounts arbitrary: allDescriptors)
    (simp_all add: descriptors_def Let_def bulk_imports_append canonical_loop_no_import
      case_prod_beta split: sum.splits)

lemma descriptors_failure:
  assumes "fst (descriptors k client account) = Inl err"
  shows "\<exists>cause.
    (GetCanonicalDescriptor client (strip_checksum (External account)) = Inl cause
       \<or> GetCanonicalDescriptor client (strip_checksum (Internal account)) = Inl cause)
    \<and> err = ErrInvalidDescriptor cause"
proof -
  from assms obtain desc cause where
    "desc \<in> set [strip_checksum (External account), strip_checksum (Internal account)]"
    and "GetCanonicalDescriptor client desc = Inl cause" and "err = ErrInvalidDescriptor cause"
    unfolding descriptors_def Let_def by (blast dest: canonical_loop_failure)
  then show ?thesis by auto
qed

lemma resolve_accounts_failure:
  "fst (resolve_accounts k client accounts allDescriptors) = Inl err \<Longrightarrow>
   \<exists>account\<in>set accounts. \<exists>cause.
     (GetCanonicalDescriptor client (strip_checksum (External account)) = Inl cause
        \<or> GetCanonicalDescriptor client (strip_checksum (Internal account)) = Inl cause)
     \<and> err = ErrInvalidDescriptor cause"
proof (induction accounts arbitrary: allDescriptors)
  case Nil
  then show ?case by simp
next
  case (Cons account accounts)
  show ?case
  proof (cases "fst (descriptors k client account)")
    case (Inl e)
    with Cons.prems have "e = err"
      by (simp add: case_prod_beta split: sum.splits)
    with Inl have "fst (descriptors k client account) = Inl err" by simp
    from descriptors_failure [OF this] show ?thesis by auto
  next
    case (Inr ds)
    with Cons.prems
    have "fst (resolve_accounts k client accounts (allDescriptors @ ds)) = Inl err"
      by (simp add: case_prod_beta split: sum.splits)
    from Cons.IH [OF this] show ?thesis by auto
  qed
qed

lemma resolve_accounts_aborts:
  "account \<in> set accounts \<Longrightarrow>
   GetCanonicalDescriptor client (strip_checksum (External account)) = Inl cause
     \<or> GetCanonicalDescriptor client (strip_checksum (Internal account)) = Inl cause \<Longrightarrow>
   \<exists>err. fst (resolve_accounts k client accounts allDescriptors) = Inl err"
proof (induction accounts arbitrary: allDescriptors)
  case Nil
  then show ?case by simp
next
  case (Cons a accounts)
  show ?case
  proof (cases "fst (descriptors k client a)")
    case (Inl e)
    then show ?thesis by (simp add: case_prod_beta split: sum.splits)
  next
    case (Inr ds)
    have "account \<noteq> a"
    proof
      assume "account = a"
      with Cons.prems(2) obtain desc where
        "desc \<in> set [strip_checksum (External a), strip_checksum (Internal a)]"
        "GetCanonicalDescriptor client desc = Inl cause"
        by auto
      then obtain e where "fst (descriptors k client a) = Inl e"
        unfolding descriptors_def Let_def using canonical_loop_aborts by blast
      with Inr show False by simp
    qed
    with Cons.prems(1) have "account \<in> set accounts" by simp
    then obtain e where
      "fst (resolve_accounts k client accounts (allDescriptors @ ds)) = Inl e"
      using Cons.IH Cons.prems(2) by blast
    with Inr show ?thesis by (simp add: case_prod_beta split: sum.splits)
  qed
qed

lemma select_loop_no_import:
  "bulk_imports (snd (select_loop client allDescriptors toImport)) = []"
  by (induction allDescriptors arbitrary: toImport) (simp_all add: case_prod_beta split: sum.splits)

lemma select_loop_result:
  "fst (select_loop client allDescriptors toImport) = Inr r \<Longrightarrow>
   r = toImport @ filter (\<lambda>d. \<not> reported_watch_only client d) allDescriptors"
proof (induction allDescriptors arbitrary: toImport)
  case Nil
  then show ?case by simp
next
  case (Cons d allDescriptors)
  from Cons.prems obtain address w where
    derive: "DeriveAddress client (Value d) (Depth d) = Inr address"
    and info: "GetAddressInfo client address = Inr w"
    by (auto simp: case_prod_beta split: sum.splits)
  from Cons.prems derive info
  have "fst (select_loop client allDescriptors (if \<not> w then toImport @ [d] else toImport)) = Inr r"
    by (simp add: case_prod_beta)
  from Cons.IH [OF this] derive info show ?case
    by (simp add: reported_watch_only_def)
qed

lemma select_loop_all_watch_only:
  "\<forall>d\<in>set allDescriptors. reported_watch_only client d \<Longrightarrow>
   fst (select_loop client allDescriptors toImport) = Inr toImport"
  by (induction allDescriptors arbitrary: toImport)
    (auto simp: reported_watch_only_def case_prod_beta split: sum.splits)

lemma select_loop_failure:
  "fst (select_loop client allDescriptors toImport) = Inl err \<Longrightarrow>
   \<exists>d\<in>set allDescriptors.
     (\<exists>cause. DeriveAddress client (Value d) (Depth d) = Inl cause
        \<and> err = ErrDeriveAddress (Value d) (Depth d) cause)
     \<or> (\<exists>address cause. DeriveAddress client (Value d) (Depth d) = Inr address
        \<and> GetAddressInfo client address = Inl cause \<and> err = ErrAddressInfo address cause)"
proof (induction allDescriptors arbitrary: toImport)
  case Nil
  then show ?case by simp
next
  case (Cons d allDescriptors)
  show ?case
  proof (cases "DeriveAddress client (Value d) (Depth d)")
    case (Inl cause)
    with Cons.prems show ?thesis by auto
  next
    case derive: (Inr address)
    show ?thesis
    proof (cases "GetAddressInfo client address")
      case (Inl cause)
      with Cons.prems derive show ?thesis by auto
    next
      case (Inr w)
      with Cons.prems derive
      have "fst (select_loop client allDescriptors (if \<not> w then toImport @ [d] else toImport))
              = Inl err"
        by (simp add: case_prod_beta)
      from Cons.IH [OF this] show ?thesis by auto
    qed
  qed
qed

lemma select_loop_aborts:
  "d \<in> set allDescriptors \<Longrightarrow> lookup_fails client d \<Longrightarrow>
   \<exists>err. fst (select_loop client allDescriptors toImport) = Inl err"
  by (induction allDescriptors arbitrary: toImport)
    (auto simp: lookup_fails_def case_prod_beta split: sum.splits)

lemma ImportAccounts_reaches_selection:
  assumes "ClientFactory b = Inr client"
    and "fst (resolve_accounts k client accs []) = Inr ds"
  shows "fst (ImportAccounts k b (Some accs)) =
           (case fst (select_loop client ds []) of
              Inl err \<Rightarrow> Some err
            | Inr toImport \<Rightarrow> if toImport = [] then None else ImportDescriptors client toImport)"
    and "bulk_imports (snd (ImportAccounts k b (Some accs))) =
           (case fst (select_loop client ds []) of
              Inl err \<Rightarrow> []
            | Inr toImport \<Rightarrow> if toImport = [] then [] else [toImport])"
  using assms
  by (simp_all add: ImportAccounts_def case_prod_beta bulk_imports_append
      resolve_accounts_no_import select_loop_no_import split: sum.splits)

lemma ex_resolved:
  "fst (resolve_accounts ex_defaults (ex_client raw wi ai) [ex_account] [])
     = Inr [ex_external, ex_internal]"
  by (simp add: descriptors_def ex_defaults_def ex_client_def ex_account_def
      strip_checksum_def ex_external_def ex_internal_def)

subsection \<open>Idempotence\<close>

text \<open>
  Claim C5. Let the client be built and the accounts resolve to the descriptors \<open>ds\<close>.
  Then every bulk import request of \<open>ImportAccounts\<close> carries exactly the descriptors of
  \<open>ds\<close> whose derived address the node does not report as watch-only; when the selected
  list is empty the call returns success and issues no bulk import request; hence, when
  the node reports every derived address as watch-only, as on a second run with the same
  accounts, the call returns success with no bulk import request at all.
\<close>

theorem ImportAccounts_idempotent:
  assumes "ClientFactory b = Inr client"
    and "fst (resolve_accounts k client accs []) = Inr ds"
  shows "(\<forall>toImport \<in> set (bulk_imports (snd (ImportAccounts k b (Some accs)))).
            toImport = filter (\<lambda>d. \<not> reported_watch_only client d) ds)
    \<and> (fst (select_loop client ds []) = Inr [] \<longrightarrow>
          fst (ImportAccounts k b (Some accs)) = None
          \<and> bulk_imports (snd (ImportAccounts k b (Some accs))) = [])
    \<and> ((\<forall>d \<in> set ds. reported_watch_only client d) \<longrightarrow>
          fst (ImportAccounts k b (Some accs)) = None
          \<and> bulk_imports (snd (ImportAccounts k b (Some accs))) = [])"
proof (intro conjI impI)
  note run = ImportAccounts_reaches_selection [OF assms]
  show "\<forall>toImport \<in> set (bulk_imports (snd (ImportAccounts k b (Some accs)))).
            toImport = filter (\<lambda>d. \<not> reported_watch_only client d) ds"
    using select_loop_result [of client ds "[]"]
    by (auto simp: run split: sum.splits if_splits)
  {
    assume "fst (select_loop client ds []) = Inr []"
    then show "fst (ImportAccounts k b (Some accs)) = None"
      and "bulk_imports (snd (ImportAccounts k b (Some accs))) = []"
      by (simp_all add: run)
  }
  {
    assume "\<forall>d \<in> set ds. reported_watch_only client d"
    then have "fst (select_loop client ds []) = Inr []"
      by (rule select_loop_all_watch_only)
    then show "fst (ImportAccounts k b (Some accs)) = None"
      and "bulk_imports (snd (ImportAccounts k b (Some accs))) = []"
      by (simp_all add: run)
  }
qed

theorem ImportAccounts_idempotent_witness:
  "ClientFactory (ex_bus False (Inr (ex_client (Inr ''synced'') (Inr \<lparr>ScanningState = ScanningBool False\<rparr>) (\<lambda>a. Inr True))))
     = Inr (ex_client (Inr ''synced'') (Inr \<lparr>ScanningState = ScanningBool False\<rparr>) (\<lambda>a. Inr True))
   \<and> fst (resolve_accounts ex_defaults
            (ex_client (Inr ''synced'') (Inr \<lparr>ScanningState = ScanningBool False\<rparr>) (\<lambda>a. Inr True))
            [ex_account] []) = Inr [ex_external, ex_internal]
   \<and> fst (select_loop (ex_client (Inr ''synced'') (Inr \<lparr>ScanningState = ScanningBool False\<rparr>) (\<lambda>a. Inr True))
            [ex_external, ex_internal] []) = Inr []
   \<and> reported_watch_only
         (ex_client (Inr ''synced'') (Inr \<lparr>ScanningState = ScanningBool False\<rparr>) (\<lambda>a. Inr True))
         ex_external
   \<and> reported_watch_only
         (ex_client (Inr ''synced'') (Inr \<lparr>ScanningState = ScanningBool False\<rparr>) (\<lambda>a. Inr True))
         ex_internal
   \<and> fst (ImportAccounts ex_defaults
            (ex_bus False (Inr (ex_client (Inr ''synced'') (Inr \<lparr>ScanningState = ScanningBool False\<rparr>) (\<lambda>a. Inr True))))
            (Some [ex_account])) = None
   \<and> bulk_imports (snd (ImportAccounts ex_defaults
            (ex_bus False (Inr (ex_client (Inr ''synced'') (Inr \<lparr>ScanningState = ScanningBool False\<rparr>) (\<lambda>a. Inr True))))
            (Some [ex_account]))) = []"
proof -
  let ?client = "ex_client (Inr ''synced'') (Inr \<lparr>ScanningState = ScanningBool False\<rparr>) (\<lambda>a. Inr True)"
  have factory: "ClientFactory (ex_bus False (Inr ?client)) = Inr ?client"
    by (simp add: ex_bus_def)
  have resolved: "fst (resolve_accounts ex_defaults ?client [ex_account] [])
      = Inr [ex_external, ex_internal]"
    by (rule ex_resolved)
  have selected: "fst (select_loop ?client [ex_external, ex_internal] []) = Inr []"
    by (simp add: ex_client_def ex_external_def ex_internal_def)
  have watched: "\<forall>d \<in> set [ex_external, ex_internal]. reported_watch_only ?client d"
    by (simp add: reported_watch_only_def ex_client_def ex_external_def ex_internal_def)
  from ImportAccounts_idempotent [OF factory resolved] factory resolved selected watched
  show ?thesis by simp
qed

subsection \<open>No accounts\<close>

text \<open>
  Claim C6, as amended. \<open>ImportAccounts\<close> returns success at once, with no call of any
  kind, when the accounts slice is nil. For a slice that is present and empty it first
  builds a client: it returns the error of a failed construction, and otherwise shuts the
  client down and returns success without any other call.
\<close>

theorem ImportAccounts_without_accounts:
  "ImportAccounts k b None = (None, [])
   \<and> (ClientFactory b = Inl err \<longrightarrow>
        ImportAccounts k b (Some []) = (Some err, [CallClientFactory]))
   \<and> (ClientFactory b = Inr client \<longrightarrow>
        ImportAccounts k b (Some []) = (None, [CallClientFactory, CallShutdown]))"
  by (simp add: ImportAccounts_def)

theorem ImportAccounts_without_accounts_witness:
  "ClientFactory (ex_bus False (Inl (Upstream ''connection refused''))) = Inl (Upstream ''connection refused'')
   \<and> ImportAccounts ex_defaults (ex_bus False (Inl (Upstream ''connection refused''))) None = (None, [])
   \<and> ImportAccounts ex_defaults (ex_bus False (Inl (Upstream ''connection refused''))) (Some [])
        = (Some (Upstream ''connection refused''), [CallClientFactory])
   \<and> ClientFactory (ex_bus False (Inr (ex_client (Inr ''synced'') (Inl (Upstream ''timeout'')) (\<lambda>a. Inr False))))
        = Inr (ex_client (Inr ''synced'') (Inl (Upstream ''timeout'')) (\<lambda>a. Inr False))
   \<and> ImportAccounts ex_defaults
        (ex_bus False (Inr (ex_client (Inr ''synced'') (Inl (Upstream ''timeout'')) (\<lambda>a. Inr False))))
        (Some []) = (None, [CallClientFactory, CallShutdown])"
proof -
  let ?down = "ex_bus False (Inl (Upstream ''connection refused''))"
  let ?client = "ex_client (Inr ''synced'') (Inl (Upstream ''timeout'')) (\<lambda>a. Inr False)"
  have f1: "ClientFactory ?down = Inl (Upstream ''connection refused'')"
    by (simp add: ex_bus_def)
  have f2: "ClientFactory (ex_bus False (Inr ?client)) = Inr ?client"
    by (simp add: ex_bus_def)
  from f1 f2
    ImportAccounts_without_accounts [of ex_defaults ?down "Upstream ''connection refused''"]
    ImportAccounts_without_accounts [of ex_defaults "ex_bus False (Inr ?client)" _ ?client]
  show ?thesis by blast
qed

text \<open>
  Claim C6 as stated fails for an empty slice that is not nil: here the client
  factory is called, and its failure is returned as the error of the call.
\<close>

theorem ImportAccounts_empty_list_counterexample:
  "ImportAccounts ex_defaults (ex_bus False (Inl (Upstream ''connection refused''))) (Some [])
     = (Some (Upstream ''connection refused''), [CallClientFactory])"
  by (simp add: ImportAccounts_def ex_bus_def)

subsection \<open>Atomicity\<close>

text \<open>
  Claim C7, as amended. Let the client be built. If canonicalising a descriptor of any
  account fails, \<open>ImportAccounts\<close> issues no bulk import request and returns the
  invalid-descriptor error that wraps the cause with which the canonicalisation of a
  descriptor of one of the accounts failed. If the accounts resolve and deriving the
  address of some descriptor or looking the address up fails, it issues no bulk import
  request either and returns the error of a failing descriptor: for a derivation failure
  the error wraps the value and the depth of the descriptor and the cause, for a lookup
  failure it wraps the derived address and the cause.
\<close>

theorem ImportAccounts_atomic:
  assumes "ClientFactory b = Inr client"
  shows
    "(account \<in> set accs
        \<and> (GetCanonicalDescriptor client (strip_checksum (External account)) = Inl cause
           \<or> GetCanonicalDescriptor client (strip_checksum (Internal account)) = Inl cause) \<longrightarrow>
        bulk_imports (snd (ImportAccounts k b (Some accs))) = []
        \<and> (\<exists>account' \<in> set accs. \<exists>cause'.
              (GetCanonicalDescriptor client (strip_checksum (External account')) = Inl cause'
                 \<or> GetCanonicalDescriptor client (strip_checksum (Internal account')) = Inl cause')
              \<and> fst (ImportAccounts k b (Some accs)) = Some (ErrInvalidDescriptor cause')))
     \<and> (fst (resolve_accounts k client accs []) = Inr ds \<and> d \<in> set ds \<and> lookup_fails client d \<longrightarrow>
        bulk_imports (snd (ImportAccounts k b (Some accs))) = []
        \<and> (\<exists>d' \<in> set ds.
              (\<exists>cause'. DeriveAddress client (Value d') (Depth d') = Inl cause'
                 \<and> fst (ImportAccounts k b (Some accs))
                     = Some (ErrDeriveAddress (Value d') (Depth d') cause')
                 \<and> wraps_descriptor (ErrDeriveAddress (Value d') (Depth d') cause') d')
              \<or> (\<exists>address cause'. DeriveAddress client (Value d') (Depth d') = Inr address
                 \<and> GetAddressInfo client address = Inl cause'
                 \<and> fst (ImportAccounts k b (Some accs)) = Some (ErrAddressInfo address cause'))))"
proof (intro conjI impI)
  assume a: "account \<in> set accs
        \<and> (GetCanonicalDescriptor client (strip_checksum (External account)) = Inl cause
           \<or> GetCanonicalDescriptor client (strip_checksum (Internal account)) = Inl cause)"
  then obtain err where failed: "fst (resolve_accounts k client accs []) = Inl err"
    using resolve_accounts_aborts by blast
  with assms have result: "fst (ImportAccounts k b (Some accs)) = Some err"
    by (simp add: ImportAccounts_def case_prod_beta split: sum.splits)
  from resolve_accounts_failure [OF failed]
  show "\<exists>account' \<in> set accs. \<exists>cause'.
              (GetCanonicalDescriptor client (strip_checksum (External account')) = Inl cause'
                 \<or> GetCanonicalDescriptor client (strip_checksum (Internal account')) = Inl cause')
              \<and> fst (ImportAccounts k b (Some accs)) = Some (ErrInvalidDescriptor cause')"
    unfolding result by auto
  from failed assms show "bulk_imports (snd (ImportAccounts k b (Some accs))) = []"
    by (simp add: ImportAccounts_def case_prod_beta bulk_imports_append
        resolve_accounts_no_import split: sum.splits)
next
  assume a: "fst (resolve_accounts k client accs []) = Inr ds \<and> d \<in> set ds \<and> lookup_fails client d"
  then have resolved: "fst (resolve_accounts k client accs []) = Inr ds" by simp
  note run = ImportAccounts_reaches_selection [OF assms resolved]
  from a obtain err where failed: "fst (select_loop client ds []) = Inl err"
    using select_loop_aborts by blast
  then show "bulk_imports (snd (ImportAccounts k b (Some accs))) = []"
    by (simp add: run)
  from failed have result: "fst (ImportAccounts k b (Some accs)) = Some err"
    by (simp add: run)
  from select_loop_failure [OF failed]
  show "\<exists>d' \<in> set ds.
              (\<exists>cause'. DeriveAddress client (Value d') (Depth d') = Inl cause'
                 \<and> fst (ImportAccounts k b (Some accs))
                     = Some (ErrDeriveAddress (Value d') (Depth d') cause')
                 \<and> wraps_descriptor (ErrDeriveAddress (Value d') (Depth d') cause') d')
              \<or> (\<exists>address cause'. DeriveAddress client (Value d') (Depth d') = Inr address
                 \<and> GetAddressInfo client address = Inl cause'
                 \<and> fst (ImportAccounts k b (Some accs)) = Some (ErrAddressInfo address cause'))"
    unfolding result by fastforce
qed

theorem ImportAccounts_atomic_witness:
  "ClientFactory (ex_bus False (Inr (ex_client (Inr ''synced'') (Inl (Upstream ''timeout''))
        (\<lambda>a. Inr False)\<lparr>GetCanonicalDescriptor := \<lambda>desc. Inl (Upstream ''invalid descriptor'')\<rparr>)))
     = Inr (ex_client (Inr ''synced'') (Inl (Upstream ''timeout''))
        (\<lambda>a. Inr False)\<lparr>GetCanonicalDescriptor := \<lambda>desc. Inl (Upstream ''invalid descriptor'')\<rparr>)
   \<and> ex_account \<in> set [ex_account]
   \<and> GetCanonicalDescriptor (ex_client (Inr ''synced'') (Inl (Upstream ''timeout''))
        (\<lambda>a. Inr False)\<lparr>GetCanonicalDescriptor := \<lambda>desc. Inl (Upstream ''invalid descriptor'')\<rparr>)
        (strip_checksum (External ex_account)) = Inl (Upstream ''invalid descriptor'')
   \<and> bulk_imports (snd (ImportAccounts ex_defaults
        (ex_bus False (Inr (ex_client (Inr ''synced'') (Inl (Upstream ''timeout''))
           (\<lambda>a. Inr False)\<lparr>GetCanonicalDescriptor := \<lambda>desc. Inl (Upstream ''invalid descriptor'')\<rparr>)))
        (Some [ex_account]))) = []
   \<and> fst (ImportAccounts ex_defaults
        (ex_bus False (Inr (ex_client (Inr ''synced'') (Inl (Upstream ''timeout''))
           (\<lambda>a. Inr False)\<lparr>GetCanonicalDescriptor := \<lambda>desc. Inl (Upstream ''invalid descriptor'')\<rparr>)))
        (Some [ex_account])) = Some (ErrInvalidDescriptor (Upstream ''invalid descriptor''))
   \<and> ClientFactory (ex_bus False (Inr (ex_client (Inr ''synced'') (Inl (Upstream ''timeout''))
        (\<lambda>a. Inl (Upstream ''wallet not loaded'')))))
     = Inr (ex_client (Inr ''synced'') (Inl (Upstream ''timeout''))
        (\<lambda>a. Inl (Upstream ''wallet not loaded'')))
   \<and> fst (resolve_accounts ex_defaults (ex_client (Inr ''synced'') (Inl (Upstream ''timeout''))
        (\<lambda>a. Inl (Upstream ''wallet not loaded''))) [ex_account] []) = Inr [ex_external, ex_internal]
   \<and> ex_external \<in> set [ex_external, ex_internal]
   \<and> lookup_fails (ex_client (Inr ''synced'') (Inl (Upstream ''timeout''))
        (\<lambda>a. Inl (Upstream ''wallet not loaded''))) ex_external
   \<and> bulk_imports (snd (ImportAccounts ex_defaults
        (ex_bus False (Inr (ex_client (Inr ''synced'') (Inl (Upstream ''timeout''))
           (\<lambda>a. Inl (Upstream ''wallet not loaded'')))))
        (Some [ex_account]))) = []"
proof -
  let ?bad = "ex_client (Inr ''synced'') (Inl (Upstream ''timeout''))
        (\<lambda>a. Inr False)\<lparr>GetCanonicalDescriptor := \<lambda>desc. Inl (Upstream ''invalid descriptor'')\<rparr>"
  let ?deaf = "ex_client (Inr ''synced'') (Inl (Upstream ''timeout''))
        (\<lambda>a. Inl (Upstream ''wallet not loaded''))"
  have f1: "ClientFactory (ex_bus False (Inr ?bad)) = Inr ?bad"
    by (simp add: ex_bus_def)
  have m1: "ex_account \<in> set [ex_account]" by simp
  have c1: "GetCanonicalDescriptor ?bad (strip_checksum (External ex_account))
      = Inl (Upstream ''invalid descriptor'')"
    by simp
  have every: "GetCanonicalDescriptor ?bad desc = Inl cause' \<Longrightarrow> cause' = Upstream ''invalid descriptor''"
    for desc cause'
    by simp
  have f2: "ClientFactory (ex_bus False (Inr ?deaf)) = Inr ?deaf"
    by (simp add: ex_bus_def)
  have r2: "fst (resolve_accounts ex_defaults ?deaf [ex_account] []) = Inr [ex_external, ex_internal]"
    by (rule ex_resolved)
  have m2: "ex_external \<in> set [ex_external, ex_internal]" by simp
  have l2: "lookup_fails ?deaf ex_external"
    by (simp add: lookup_fails_def ex_client_def ex_external_def)
  note t1 = ImportAccounts_atomic [OF f1, of ex_account "[ex_account]" "Upstream ''invalid descriptor''" ex_defaults]
  from t1 m1 c1
  have i1: "bulk_imports (snd (ImportAccounts ex_defaults (ex_bus False (Inr ?bad)) (Some [ex_account]))) = []"
    by blast
  from t1 m1 c1 obtain cause' where
    "GetCanonicalDescriptor ?bad (strip_checksum (External ex_account)) = Inl cause'
       \<or> GetCanonicalDescriptor ?bad (strip_checksum (Internal ex_account)) = Inl cause'"
    and "fst (ImportAccounts ex_defaults (ex_bus False (Inr ?bad)) (Some [ex_account]))
      = Some (ErrInvalidDescriptor cause')"
    by auto
  with every
  have e1: "fst (ImportAccounts ex_defaults (ex_bus False (Inr ?bad)) (Some [ex_account]))
      = Some (ErrInvalidDescriptor (Upstream ''invalid descriptor''))"
    by blast
  from ImportAccounts_atomic [OF f2, of _ "[ex_account]" _ ex_defaults "[ex_external, ex_internal]" ex_external]
    r2 m2 l2
  have i2: "bulk_imports (snd (ImportAccounts ex_defaults (ex_bus False (Inr ?deaf)) (Some [ex_account]))) = []"
    by blast
  from f1 m1 c1 i1 e1 f2 r2 m2 l2 i2 show ?thesis by blast
qed

text \<open>
  Claim C7 as stated fails for a lookup failure: the returned error carries the derived
  address and the cause, and neither the value nor the depth of the descriptor.
\<close>

theorem ImportAccounts_address_info_counterexample:
  "ImportAccounts ex_defaults
     (ex_bus False (Inr (ex_client (Inr ''synced'') (Inl (Upstream ''timeout''))
        (\<lambda>a. Inl (Upstream ''wallet not loaded'')))))
     (Some [ex_account])
   = (Some (ErrAddressInfo ''bc1qexternal'' (Upstream ''wallet not loaded'')),
      [CallClientFactory, CallGetCanonicalDescriptor ''wpkh(xpubA/0/*)'',
       CallGetCanonicalDescriptor ''wpkh(xpubA/1/*)'',
       CallDeriveAddress ''wpkh(xpubA/0/*)#canon'' 1000, CallGetAddressInfo ''bc1qexternal'',
       CallShutdown])
   \<and> \<not> wraps_descriptor (ErrAddressInfo ''bc1qexternal'' (Upstream ''wallet not loaded''))
         \<lparr>Value = ''wpkh(xpubA/0/*)#canon'', Depth = 1000, Age = 1380585600\<rparr>"
  by (simp add: ImportAccounts_def ex_bus_def descriptors_def ex_defaults_def ex_client_def
      ex_account_def strip_checksum_def)

section \<open>Properties of the sync worker\<close>

subsection \<open>Events of the phases\<close>

lemma canonical_loop_calls:
  "list_all is_import_call (snd (canonical_loop client depth age rawDescs ret))"
  by (induction rawDescs arbitrary: ret) (simp_all add: case_prod_beta split: sum.splits)

lemma resolve_accounts_calls:
  "list_all is_import_call (snd (resolve_accounts k client accounts allDescriptors))"
  by (induction accounts arbitrary: allDescriptors)
    (simp_all add: descriptors_def Let_def canonical_loop_calls case_prod_beta split: sum.splits)

lemma select_loop_calls:
  "list_all is_import_call (snd (select_loop client allDescriptors toImport))"
  by (induction allDescriptors arbitrary: toImport)
    (simp_all add: case_prod_beta split: sum.splits)

lemma ImportAccounts_calls:
  "list_all is_import_call (snd (ImportAccounts k b accounts))"
  by (simp add: ImportAccounts_def resolve_accounts_calls select_loop_calls case_prod_beta
      split: option.splits sum.splits)


lemma import_call_not_member:
  "list_all is_import_call evs \<Longrightarrow> \<not> is_import_call e \<Longrightarrow> e \<notin> set evs"
  by (auto simp: list_all_iff)







lemma importing_no_rescan:
  "CallRescanWallet s t \<notin> set (snd (importing k env b accounts forceImportDesc))"
  using import_call_not_member [OF ImportAccounts_calls [of k b accounts], of "CallRescanWallet s t"]
  by (simp add: importing_def case_prod_beta split: sum.splits option.splits)

lemma resuming_events:
  "set (snd (resuming env startHeight)) \<subseteq>
     {CallCheckWalletSyncStatus, CallAbortRescan, CallGetBlockCount,
      CallRescanWallet startHeight (fst (GetBlockCount env))}"
  by (simp add: resuming_def Let_def split: sum.splits)

lemma resuming_rescans:
  "checkWalletSyncStatus env = Inr pending \<Longrightarrow>
   CallRescanWallet startHeight (fst (GetBlockCount env)) \<in> set (snd (resuming env startHeight))"
  by (simp add: resuming_def Let_def)


subsection \<open>The choice between importing and resuming\<close>

text \<open>
  Claim C8. When the forced-import flag is set, or the wallet is new, or reading the stored
  height fails or yields \<open>- 1\<close>, the worker continues with the importing branch, which
  never asks for a rescan. In every other case it continues with the resuming branch from
  the stored height: it neither sets the pending flag nor makes any call of the import,
  and, once the wallet status check has passed, asks for the rescan from the stored height
  to the block count of the node.
\<close>

theorem Worker_deciding:
  "(forceImportDesc \<or> isNewWallet env \<or> LoadRescanConf env = Inl err
      \<or> LoadRescanConf env = Inr (- 1) \<longrightarrow>
      deciding k env b accounts forceImportDesc =
        (fst (importing k env b accounts forceImportDesc),
         CallLoadRescanConf # snd (importing k env b accounts forceImportDesc))
      \<and> (\<forall>s t. CallRescanWallet s t \<notin> set (snd (deciding k env b accounts forceImportDesc))))
   \<and> (\<not> forceImportDesc \<and> \<not> isNewWallet env \<and> LoadRescanConf env = Inr lastBlock
      \<and> lastBlock \<noteq> - 1 \<longrightarrow>
      deciding k env b accounts forceImportDesc =
        (fst (resuming env lastBlock), CallLoadRescanConf # snd (resuming env lastBlock))
      \<and> SetIsPendingScan True \<notin> set (snd (deciding k env b accounts forceImportDesc))
      \<and> list_all (\<lambda>e. \<not> is_import_call e) (snd (deciding k env b accounts forceImportDesc))
      \<and> (checkWalletSyncStatus env = Inr pending \<longrightarrow>
           CallRescanWallet lastBlock (fst (GetBlockCount env))
             \<in> set (snd (deciding k env b accounts forceImportDesc))))"
proof (intro conjI impI allI)
  assume c: "forceImportDesc \<or> isNewWallet env \<or> LoadRescanConf env = Inl err
      \<or> LoadRescanConf env = Inr (- 1)"
  then have "forceImportDesc \<or> isNewWallet env \<or> fst (getPreviousRescanBlock env) = - 1"
    by (auto simp: getPreviousRescanBlock_def)
  then show d: "deciding k env b accounts forceImportDesc =
        (fst (importing k env b accounts forceImportDesc),
         CallLoadRescanConf # snd (importing k env b accounts forceImportDesc))"
    by (simp add: deciding_def Let_def case_prod_beta)
  fix s t
  show "CallRescanWallet s t \<notin> set (snd (deciding k env b accounts forceImportDesc))"
    unfolding d using importing_no_rescan [of s t k env b accounts forceImportDesc] by simp
next
  assume c: "\<not> forceImportDesc \<and> \<not> isNewWallet env \<and> LoadRescanConf env = Inr lastBlock
      \<and> lastBlock \<noteq> - 1"
  then have "fst (getPreviousRescanBlock env) = lastBlock"
    by (simp add: getPreviousRescanBlock_def)
  with c show d: "deciding k env b accounts forceImportDesc =
        (fst (resuming env lastBlock), CallLoadRescanConf # snd (resuming env lastBlock))"
    by (simp add: deciding_def Let_def case_prod_beta)
  show "SetIsPendingScan True \<notin> set (snd (deciding k env b accounts forceImportDesc))"
    unfolding d using resuming_events [of env lastBlock] by auto
  show "list_all (\<lambda>e. \<not> is_import_call e) (snd (deciding k env b accounts forceImportDesc))"
    unfolding d using resuming_events [of env lastBlock] by (auto simp: list_all_iff)
  assume "checkWalletSyncStatus env = Inr pending"
  then show "CallRescanWallet lastBlock (fst (GetBlockCount env))
             \<in> set (snd (deciding k env b accounts forceImportDesc))"
    unfolding d using resuming_rescans by simp
qed

theorem Worker_deciding_witness:
  "isNewWallet (ex_env [Inr ''synced''] True (Inr 800000))
   \<and> (\<forall>s t. CallRescanWallet s t \<notin> set (snd (deciding ex_defaults
         (ex_env [Inr ''synced''] True (Inr 800000)) (ex_bus False (Inl (Upstream ''refused'')))
         (Some [ex_account]) False)))
   \<and> \<not> isNewWallet (ex_env [Inr ''synced''] False (Inr 800000))
   \<and> LoadRescanConf (ex_env [Inr ''synced''] False (Inr 800000)) = Inr 800000
   \<and> (800000::int) \<noteq> - 1
   \<and> checkWalletSyncStatus (ex_env [Inr ''synced''] False (Inr 800000)) = Inr False
   \<and> CallRescanWallet 800000 (fst (GetBlockCount (ex_env [Inr ''synced''] False (Inr 800000))))
       \<in> set (snd (deciding ex_defaults
         (ex_env [Inr ''synced''] False (Inr 800000)) (ex_bus False (Inl (Upstream ''refused'')))
         (Some [ex_account]) False))"
proof -
  let ?new = "ex_env [Inr ''synced''] True (Inr 800000)"
  let ?old = "ex_env [Inr ''synced''] False (Inr 800000)"
  let ?b = "ex_bus False (Inl (Upstream ''refused''))"
  have h1: "isNewWallet ?new" by (simp add: ex_env_def)
  have h2: "\<not> isNewWallet ?old" "LoadRescanConf ?old = Inr 800000" "(800000::int) \<noteq> - 1"
    "checkWalletSyncStatus ?old = Inr False"
    by (simp_all add: ex_env_def)
  from Worker_deciding [of False ?new _ ex_defaults ?b "Some [ex_account]"] h1
  have c1: "\<forall>s t. CallRescanWallet s t \<notin> set (snd (deciding ex_defaults ?new ?b (Some [ex_account]) False))"
    by blast
  from Worker_deciding [of False ?old _ ex_defaults ?b "Some [ex_account]" 800000 False] h2
  have c2: "CallRescanWallet 800000 (fst (GetBlockCount ?old))
       \<in> set (snd (deciding ex_defaults ?old ?b (Some [ex_account]) False))"
    by blast
  from h1 h2 c1 c2 show ?thesis by blast
qed

subsection \<open>The completion signal\<close>




end
